theory Spec2Isabelle
  imports Main "HOL-Library.Word"
begin

section \<open>The request-parameter binding of beego's input context\<close>

text \<open>
  This theory embeds the binding code of \<^verbatim>\<open>package context\<close> (\<^verbatim>\<open>Bind\<close>, \<^verbatim>\<open>bind\<close>,
  \<^verbatim>\<open>bindValue\<close> and the typed binding functions) together with the parts of Go's \<^verbatim>\<open>reflect\<close>,
  \<^verbatim>\<open>strconv\<close>, \<^verbatim>\<open>strings\<close> and \<^verbatim>\<open>net/url\<close> packages that this code calls.

  Conventions.
  \<^item> A Go string is a list of bytes (\<^typ>\<open>string\<close>).
  \<^item> The platform is a 64-bit one: \<^verbatim>\<open>int\<close> and \<^verbatim>\<open>uint\<close> have 64 bits.
  \<^item> A run-time panic is a value: every function that can panic returns \<open>panic + 'a\<close>.
  \<^item> A Go map is iterated in an order the run time chooses. \<^verbatim>\<open>url.Values\<close> is an
    association list, and the order of the list is the order of the iteration; properties
    that hold for every order are stated for every list.
  \<^item> Types are compared by structure; defined (named) types are not distinguished from
    their underlying types, and struct types have no embedded fields.
  \<^item> Floating-point arithmetic is not computed here: a \<^verbatim>\<open>float64\<close> is its bit pattern, and
    \<^verbatim>\<open>strconv.ParseFloat\<close>, the conversion to \<^verbatim>\<open>float32\<close> and the comparison \<^verbatim>\<open>==\<close> of
    floats are parameters of the model (record \<open>floats\<close>).
\<close>

subsection \<open>Types and kinds of package reflect\<close>

datatype width = W | W8 | W16 | W32 | W64

datatype fwidth = F32 | F64

datatype otherKind = Uintptr | Complex64 | Complex128 | Array | Chan | Func | UnsafePointer

datatype rtype =
    TInt width
  | TUint width
  | TFloat fwidth
  | TString
  | TBool
  | TSlice rtype
  | TStruct "(string \<times> bool \<times> rtype) list"
  | TPtr rtype
  | TMap rtype rtype
  | TInterface "string list"
  | TOther otherKind

text \<open>
  A struct type lists its fields: name, whether the name is exported, and type.
  An interface type lists its method names; \<open>TInterface []\<close> is \<^verbatim>\<open>interface{}\<close>.
  \<open>TOther\<close> stands for the types of the kinds that \<^verbatim>\<open>bind\<close> has no case for.
\<close>

fun bits :: "width \<Rightarrow> nat" where
  "bits W = 64"
| "bits W8 = 8"
| "bits W16 = 16"
| "bits W32 = 32"
| "bits W64 = 64"

type_synonym float64 = "64 word"

subsection \<open>Values\<close>

datatype val =
    VInt width int
  | VUint width int
  | VFloat fwidth float64
  | VString string
  | VBool bool
  | VSlice rtype "val list"
  | VStruct "(string \<times> bool \<times> rtype) list" "val list"
  | VPtr nat val
  | VMap rtype rtype "(val \<times> val) list"
  | VIface "string list" "val option"
  | VZero rtype

text \<open>
  \<open>VSlice t xs\<close> is a non-nil slice of element type \<open>t\<close>; \<open>VPtr a v\<close> is the pointer to
  the variable at address \<open>a\<close>, which holds \<open>v\<close>; \<open>VMap k e kvs\<close> is a non-nil map;
  \<open>VIface ms (Some v)\<close> is an interface value holding \<open>v\<close>. \<open>VZero t\<close> is the zero
  value of a type whose zero value has no structure here: the nil slice, pointer, map,
  interface, channel and function, and the zero of the other kinds.
\<close>

fun type_of :: "val \<Rightarrow> rtype" where
  "type_of (VInt w _) = TInt w"
| "type_of (VUint w _) = TUint w"
| "type_of (VFloat w _) = TFloat w"
| "type_of (VString _) = TString"
| "type_of (VBool _) = TBool"
| "type_of (VSlice t _) = TSlice t"
| "type_of (VStruct fs _) = TStruct fs"
| "type_of (VPtr _ v) = TPtr (type_of v)"
| "type_of (VMap k e _) = TMap k e"
| "type_of (VIface ms _) = TInterface ms"
| "type_of (VZero t) = t"

text \<open>\<^verbatim>\<open>reflect.Zero(typ)\<close>, as a value.\<close>

fun zero :: "rtype \<Rightarrow> val" where
  "zero (TInt w) = VInt w 0"
| "zero (TUint w) = VUint w 0"
| "zero (TFloat w) = VFloat w 0"
| "zero TString = VString []"
| "zero TBool = VBool False"
| "zero (TStruct fs) = VStruct fs (map (\<lambda>f. zero (snd (snd f))) fs)"
| "zero t = VZero t"

text \<open>
  A \<^verbatim>\<open>reflect.Value\<close>: the zero Value (\<open>Invalid\<close>, for which \<^verbatim>\<open>IsValid\<close> is false), or a
  value with the flag that says whether it is addressable (\<^verbatim>\<open>CanAddr\<close>).
\<close>

datatype Value = Invalid | Value val bool

fun IsValid :: "Value \<Rightarrow> bool" where
  "IsValid Invalid = False"
| "IsValid (Value _ _) = True"

datatype panic =
    NotAssignable rtype rtype
  | Unaddressable
  | IndexOutOfRange
  | MakeSliceNegative
  | CallOnZeroValue

text \<open>\<^verbatim>\<open>reflect.Zero\<close> returns a Value that is not addressable.\<close>

definition Zero :: "rtype \<Rightarrow> Value" where
  "Zero t = Value (zero t) False"

text \<open>
  Assignability of a value to a type, as \<^verbatim>\<open>Value.Set\<close>, \<^verbatim>\<open>reflect.Append\<close> and
  \<^verbatim>\<open>SetMapIndex\<close> check it: identical types, or an interface type that the value's type
  implements. Of the modelled types only interface types have methods.
\<close>

fun methods :: "rtype \<Rightarrow> string set" where
  "methods (TInterface ms) = set ms"
| "methods _ = {}"

fun assignTo :: "Value \<Rightarrow> rtype \<Rightarrow> panic + val" where
  "assignTo Invalid t = Inl CallOnZeroValue"
| "assignTo (Value v _) t =
     (if type_of v = t then Inr v
      else case t of
        TInterface ms \<Rightarrow>
          (if set ms \<subseteq> methods (type_of v) then Inr (VIface ms (Some v))
           else Inl (NotAssignable (type_of v) t))
      | _ \<Rightarrow> Inl (NotAssignable (type_of v) t))"

text \<open>\<^verbatim>\<open>Value.Addr\<close>: the pointer to an addressable value; panics on any other.\<close>

fun Addr :: "nat \<Rightarrow> Value \<Rightarrow> panic + Value" where
  "Addr a Invalid = Inl CallOnZeroValue"
| "Addr a (Value v addressable) =
     (if addressable then Inr (Value (VPtr a v) False) else Inl Unaddressable)"

subsection \<open>Package strings\<close>

definition HasPrefix :: "string \<Rightarrow> string \<Rightarrow> bool" where
  "HasPrefix s p = (take (length p) s = p)"

text \<open>\<^verbatim>\<open>strings.Index(s, "]")\<close>: the first position of the byte, or -1.\<close>

fun IndexByte :: "string \<Rightarrow> char \<Rightarrow> int" where
  "IndexByte [] c = -1"
| "IndexByte (x # xs) c =
     (if x = c then 0 else (let i = IndexByte xs c in if i < 0 then -1 else i + 1))"

text \<open>
  \<^verbatim>\<open>strings.ToLower\<close> and \<^verbatim>\<open>strings.TrimSpace\<close> on ASCII strings. (On other strings Go
  decodes UTF-8 and uses the Unicode tables; the properties below are about ASCII input.)
\<close>

definition isUpper :: "char \<Rightarrow> bool" where
  "isUpper c = (65 \<le> (of_char c :: nat) \<and> (of_char c :: nat) \<le> 90)"

definition toLowerByte :: "char \<Rightarrow> char" where
  "toLowerByte c = (if isUpper c then char_of ((of_char c :: nat) + 32) else c)"

definition ToLower :: "string \<Rightarrow> string" where
  "ToLower s = map toLowerByte s"

definition isSpace :: "char \<Rightarrow> bool" where
  "isSpace c = ((of_char c :: nat) \<in> {9, 10, 11, 12, 13, 32})"

definition TrimSpace :: "string \<Rightarrow> string" where
  "TrimSpace s = rev (dropWhile isSpace (rev (dropWhile isSpace s)))"


subsection \<open>Package strconv\<close>

definition isDigit :: "char \<Rightarrow> bool" where
  "isDigit c = (48 \<le> (of_char c :: nat) \<and> (of_char c :: nat) \<le> 57)"

text \<open>The value of a string of decimal digits, most significant first.\<close>

fun digitsValue :: "nat \<Rightarrow> string \<Rightarrow> nat" where
  "digitsValue acc [] = acc"
| "digitsValue acc (c # cs) = digitsValue (acc * 10 + ((of_char c :: nat) - 48)) cs"

text \<open>
  \<^verbatim>\<open>strconv.ParseUint(s, 10, 64)\<close>: the value and whether the error is nil. A string
  that is not a non-empty string of digits is a syntax error, with value 0; a value
  above the largest \<^verbatim>\<open>uint64\<close> is a range error, with that largest value.
\<close>

definition ParseUint :: "string \<Rightarrow> int \<times> bool" where
  "ParseUint s =
     (if s = [] \<or> \<not> list_all isDigit s then (0, False)
      else let n = int (digitsValue 0 s)
           in if n > 2 ^ 64 - 1 then (2 ^ 64 - 1, False) else (n, True))"

text \<open>
  \<^verbatim>\<open>strconv.ParseInt(s, 10, 64)\<close>: an optional sign, then \<^verbatim>\<open>ParseUint\<close> on the rest.
  A syntax error gives 0; a range error gives the nearest bound of \<^verbatim>\<open>int64\<close>.
\<close>

definition ParseInt :: "string \<Rightarrow> int \<times> bool" where
  "ParseInt s =
     (if s = [] then (0, False)
      else let neg = (hd s = CHR ''-'');
               s' = (if hd s = CHR ''+'' \<or> hd s = CHR ''-'' then tl s else s)
           in if s' = [] \<or> \<not> list_all isDigit s' then (0, False)
              else let un = int (digitsValue 0 s')
                   in if \<not> neg \<and> un \<ge> 2 ^ 63 then (2 ^ 63 - 1, False)
                      else if neg \<and> un > 2 ^ 63 then (- (2 ^ 63), False)
                      else (if neg then - un else un, True))"

text \<open>
  \<^verbatim>\<open>strconv.Atoi\<close>: on a 64-bit platform the result of \<^verbatim>\<open>ParseInt(s, 10, 0)\<close>
  converted to \<^verbatim>\<open>int\<close>, value and error alike.
\<close>

definition Atoi :: "string \<Rightarrow> int \<times> bool" where
  "Atoi s = ParseInt s"

text \<open>
  What the code takes from floating-point arithmetic: \<^verbatim>\<open>strconv.ParseFloat(s, 64)\<close>
  (\<open>None\<close> when it returns an error), the conversion \<^verbatim>\<open>float32(x)\<close> that \<^verbatim>\<open>SetFloat\<close>
  makes for a \<^verbatim>\<open>float32\<close>, and \<^verbatim>\<open>==\<close> on floats.
\<close>

record floats =
  ParseFloat :: "string \<Rightarrow> float64 option"
  toFloat32 :: "float64 \<Rightarrow> float64"
  floatEq :: "float64 \<Rightarrow> float64 \<Rightarrow> bool"

text \<open>
  An instance of these parameters, for the examples: its \<^verbatim>\<open>ParseFloat\<close> reads \<^verbatim>\<open>"0"\<close> and
  \<^verbatim>\<open>"1"\<close> as Go does (the bit patterns of 0 and of 1) and no other string; both values
  are their own conversion to \<^verbatim>\<open>float32\<close>.
\<close>

definition exampleFloats :: floats where
  "exampleFloats =
     \<lparr>ParseFloat = (\<lambda>s. if s = ''0'' then Some 0
                          else if s = ''1'' then Some 0x3FF0000000000000 else None),
      toFloat32 = (\<lambda>x. x), floatEq = (=)\<rparr>"

text \<open>
  \<^verbatim>\<open>strconv.FormatUint(n, 10)\<close> and \<^verbatim>\<open>strconv.FormatInt(i, 10)\<close>: the decimal
  representation of a number, against which the parsing of the binding functions is
  stated.
\<close>

fun FormatUint :: "nat \<Rightarrow> string" where
  "FormatUint n =
     (if n < 10 then [char_of (48 + n)]
      else FormatUint (n div 10) @ [char_of (48 + n mod 10)])"

declare FormatUint.simps [simp del]

definition FormatInt :: "int \<Rightarrow> string" where
  "FormatInt i = (if i < 0 then CHR ''-'' # FormatUint (nat (- i)) else FormatUint (nat i))"

subsection \<open>The scalar binding functions\<close>

text \<open>
  \<^verbatim>\<open>Value.SetInt\<close> and \<^verbatim>\<open>Value.SetUint\<close> convert the 64-bit argument to the kind of the
  variable, which keeps the low bits; \<^verbatim>\<open>reflect.New(typ).Elem()\<close> is addressable.
\<close>

definition SetInt :: "width \<Rightarrow> int \<Rightarrow> val" where
  "SetInt w x = VInt w (signed_take_bit (bits w - 1) x)"

definition SetUint :: "width \<Rightarrow> int \<Rightarrow> val" where
  "SetUint w x = VUint w (take_bit (bits w) x)"

definition SetFloat :: "floats \<Rightarrow> fwidth \<Rightarrow> float64 \<Rightarrow> val" where
  "SetFloat F w x = VFloat w (case w of F32 \<Rightarrow> toFloat32 F x | F64 \<Rightarrow> x)"

definition bindInt :: "string \<Rightarrow> width \<Rightarrow> Value" where
  "bindInt val w =
     (case ParseInt val of
        (intValue, ok) \<Rightarrow> if \<not> ok then Zero (TInt w) else Value (SetInt w intValue) True)"

definition bindUint :: "string \<Rightarrow> width \<Rightarrow> Value" where
  "bindUint val w =
     (case ParseUint val of
        (uintValue, ok) \<Rightarrow> if \<not> ok then Zero (TUint w) else Value (SetUint w uintValue) True)"

definition bindFloat :: "floats \<Rightarrow> string \<Rightarrow> fwidth \<Rightarrow> Value" where
  "bindFloat F val w =
     (case ParseFloat F val of
        None \<Rightarrow> Zero (TFloat w)
      | Some floatValue \<Rightarrow> Value (SetFloat F w floatValue) True)"

definition bindString :: "string \<Rightarrow> Value" where
  "bindString val = Value (VString val) False"

definition bindBool :: "string \<Rightarrow> Value" where
  "bindBool val =
     (let val' = TrimSpace (ToLower val)
      in if val' = ''true'' \<or> val' = ''on'' \<or> val' = ''1''
         then Value (VBool True) False else Value (VBool False) False)"

subsection \<open>The request: route parameters and form values\<close>

type_synonym Values = "(string \<times> string list) list"

text \<open>
  The part of \<^verbatim>\<open>BeegoInput\<close> that \<^verbatim>\<open>Bind\<close> reads: the route parameters \<^verbatim>\<open>Params\<close>,
  the field \<^verbatim>\<open>Request.Form\<close> (\<open>None\<close> is the nil map of a request whose form has not been
  parsed) and \<open>RequestData\<close>, the values that \<^verbatim>\<open>Request.ParseForm()\<close> reads from the
  URL and the body. \<open>allocs\<close> counts the variables whose address has been taken, so
  that every pointer that \<^verbatim>\<open>bindPoint\<close> makes is a new one.
\<close>

record BeegoInput =
  Params :: "string \<Rightarrow> string option"
  Form :: "Values option"
  RequestData :: Values
  allocs :: nat

text \<open>\<^verbatim>\<open>url.Values.Get\<close>: the first value of the key, or the empty string.\<close>

definition Get :: "Values option \<Rightarrow> string \<Rightarrow> string" where
  "Get v key =
     (case v of
        None \<Rightarrow> []
      | Some m \<Rightarrow> (case map_of m key of None \<Rightarrow> [] | Some [] \<Rightarrow> [] | Some (x # _) \<Rightarrow> x))"

definition Param :: "BeegoInput \<Rightarrow> string \<Rightarrow> string" where
  "Param input key = (case Params input key of Some v \<Rightarrow> v | None \<Rightarrow> [])"

text \<open>\<^verbatim>\<open>Request.ParseForm\<close> fills the form of a request that has none.\<close>

definition ParseForm :: "BeegoInput \<Rightarrow> BeegoInput" where
  "ParseForm input =
     (case Form input of
        None \<Rightarrow> input\<lparr>Form := Some (RequestData input)\<rparr>
      | Some _ \<Rightarrow> input)"

definition Query :: "BeegoInput \<Rightarrow> string \<Rightarrow> string \<times> BeegoInput" where
  "Query input key =
     (let val = Param input key
      in if val \<noteq> [] then (val, input)
         else let input' = (if Form input = None then ParseForm input else input)
              in (Get (Form input') key, input'))"

subsection \<open>Binding a slice\<close>

type_synonym bindFn = "BeegoInput \<Rightarrow> string \<Rightarrow> panic + (Value \<times> BeegoInput)"

text \<open>Go's \<^verbatim>\<open>s[a:b]\<close> for \<open>0 \<le> a \<le> b \<le> len(s)\<close>, and 64-bit \<^verbatim>\<open>int\<close> arithmetic.\<close>

definition slice :: "string \<Rightarrow> int \<Rightarrow> int \<Rightarrow> string" where
  "slice s a b = take (nat (b - a)) (drop (nat a) s)"

definition wrap64 :: "int \<Rightarrow> int" where
  "wrap64 x = signed_take_bit 63 x"

text \<open>
  The index between the brackets and the position where the sub-key starts
  (lines 458 to 463 of the source). The error of \<^verbatim>\<open>Atoi\<close> is dropped there.
\<close>

definition sliceIndex :: "string \<Rightarrow> string \<Rightarrow> int \<times> int" where
  "sliceIndex key reqKey =
     (let leftBracket = int (length key);
          rightBracket = IndexByte (drop (length key) reqKey) (CHR '']'') + int (length key);
          index = (if rightBracket > leftBracket + 1
                   then fst (Atoi (slice reqKey (leftBracket + 1) rightBracket))
                   else -1);
          subKeyIndex = rightBracket + 1
      in (index, subKeyIndex))"

type_synonym sliceValue = "int \<times> Value"

text \<open>The inner loop over the values of an un-indexed key.\<close>

fun bindSlice_vals ::
  "bindFn \<Rightarrow> string list \<Rightarrow> sliceValue list \<Rightarrow> BeegoInput
    \<Rightarrow> panic + (sliceValue list \<times> BeegoInput)" where
  "bindSlice_vals bv [] sliceValues input = Inr (sliceValues, input)"
| "bindSlice_vals bv (val # vals) sliceValues input =
     (case bv input val of
        Inl p \<Rightarrow> Inl p
      | Inr (v, input') \<Rightarrow> bindSlice_vals bv vals (sliceValues @ [(-1, v)]) input')"

text \<open>
  One iteration of the first loop of \<^verbatim>\<open>bindSlice\<close>, on the entry \<open>(reqKey, vals)\<close>. The
  state of the loop is \<open>(maxIndex, numNoIndex, sliceValues)\<close>; \<open>bk\<close> is \<^verbatim>\<open>input.bind\<close>
  and \<open>bv\<close> is \<^verbatim>\<open>input.bindValue\<close>, both at the element type.
\<close>

definition bindSlice_entry ::
  "bindFn \<Rightarrow> bindFn \<Rightarrow> string \<Rightarrow> string \<times> string list
    \<Rightarrow> int \<times> int \<times> sliceValue list \<Rightarrow> BeegoInput
    \<Rightarrow> panic + ((int \<times> int \<times> sliceValue list) \<times> BeegoInput)" where
  "bindSlice_entry bk bv key entry acc input =
     (case (entry, acc) of ((reqKey, vals), (maxIndex, numNoIndex, sliceValues)) \<Rightarrow>
        if \<not> HasPrefix reqKey (key @ ''['') then Inr (acc, input)
        else case sliceIndex key reqKey of (index, subKeyIndex) \<Rightarrow>
          if index > -1 then
            (case bk input (slice reqKey 0 subKeyIndex) of
               Inl p \<Rightarrow> Inl p
             | Inr (v, input') \<Rightarrow>
                 Inr ((max maxIndex index, numNoIndex, sliceValues @ [(index, v)]), input'))
          else
            (case bindSlice_vals bv vals sliceValues input of
               Inl p \<Rightarrow> Inl p
             | Inr (sliceValues', input') \<Rightarrow>
                 Inr ((maxIndex, wrap64 (numNoIndex + int (length vals)), sliceValues'),
                      input')))"

fun bindSlice_scan ::
  "bindFn \<Rightarrow> bindFn \<Rightarrow> string \<Rightarrow> Values
    \<Rightarrow> int \<times> int \<times> sliceValue list \<Rightarrow> BeegoInput
    \<Rightarrow> panic + ((int \<times> int \<times> sliceValue list) \<times> BeegoInput)" where
  "bindSlice_scan bk bv key [] acc input = Inr (acc, input)"
| "bindSlice_scan bk bv key (entry # params) acc input =
     (case bindSlice_entry bk bv key entry acc input of
        Inl p \<Rightarrow> Inl p
      | Inr (acc', input') \<Rightarrow> bindSlice_scan bk bv key params acc' input')"

text \<open>
  \<^verbatim>\<open>reflect.MakeSlice(typ, len, cap)\<close> panics on a negative length or capacity and on
  a length above the capacity; the elements are zero. (That the allocation itself can
  fail for want of memory is not modelled.)
\<close>

definition MakeSlice :: "rtype \<Rightarrow> int \<Rightarrow> int \<Rightarrow> panic + val list" where
  "MakeSlice t len cap =
     (if len < 0 \<or> cap < 0 \<or> len > cap then Inl MakeSliceNegative
      else Inr (replicate (nat len) (zero t)))"

text \<open>
  The second loop: \<^verbatim>\<open>resultArray.Index(sv.index).Set(sv.value)\<close> for an indexed value and
  \<^verbatim>\<open>reflect.Append(resultArray, sv.value)\<close> for the others. The capacity that
  \<^verbatim>\<open>MakeSlice\<close> got is the number of elements of the result, so \<^verbatim>\<open>Append\<close> never moves
  the array, and the list is the array.
\<close>

fun bindSlice_fill :: "rtype \<Rightarrow> sliceValue list \<Rightarrow> val list \<Rightarrow> panic + val list" where
  "bindSlice_fill t [] resultArray = Inr resultArray"
| "bindSlice_fill t ((index, v) # sliceValues) resultArray =
     (if index \<noteq> -1 then
        (if index < 0 \<or> int (length resultArray) \<le> index then Inl IndexOutOfRange
         else case assignTo v t of
                Inl p \<Rightarrow> Inl p
              | Inr x \<Rightarrow> bindSlice_fill t sliceValues (resultArray[nat index := x]))
      else
        (case assignTo v t of
           Inl p \<Rightarrow> Inl p
         | Inr x \<Rightarrow> bindSlice_fill t sliceValues (resultArray @ [x])))"

text \<open>
  \<^verbatim>\<open>bindSlice(params, key, typ)\<close>, where \<open>t\<close> is \<^verbatim>\<open>typ.Elem()\<close>. Ranging over a nil map
  makes no iteration.
\<close>

definition entries :: "Values option \<Rightarrow> Values" where
  "entries params = (case params of None \<Rightarrow> [] | Some m \<Rightarrow> m)"

definition bindSlice ::
  "bindFn \<Rightarrow> bindFn \<Rightarrow> Values option \<Rightarrow> string \<Rightarrow> rtype \<Rightarrow> BeegoInput
    \<Rightarrow> panic + (Value \<times> BeegoInput)" where
  "bindSlice bk bv params key t input =
     (case bindSlice_scan bk bv key (entries params) (-1, 0, []) input of
        Inl p \<Rightarrow> Inl p
      | Inr ((maxIndex, numNoIndex, sliceValues), input') \<Rightarrow>
          (case MakeSlice t (wrap64 (maxIndex + 1)) (wrap64 (maxIndex + 1 + numNoIndex)) of
             Inl p \<Rightarrow> Inl p
           | Inr resultArray \<Rightarrow>
               (case bindSlice_fill t sliceValues resultArray of
                  Inl p \<Rightarrow> Inl p
                | Inr xs \<Rightarrow> Inr (Value (VSlice t xs) False, input'))))"

subsection \<open>Binding a struct\<close>

text \<open>
  \<^verbatim>\<open>Value.FieldByName\<close> on a struct without embedded fields: the position of the field
  of that name with the rest of its description, or nothing (the invalid Value).
  Every field comes with the function that binds a literal at the field's type.
\<close>

type_synonym field = "string \<times> bool \<times> rtype \<times> bindFn"

fun FieldByName :: "field list \<Rightarrow> string \<Rightarrow> (nat \<times> bool \<times> rtype \<times> bindFn) option" where
  "FieldByName [] name = None"
| "FieldByName ((n, f) # fs) name =
     (if n = name then Some (0, f)
      else case FieldByName fs name of
             None \<Rightarrow> None
           | Some (i, f') \<Rightarrow> Some (Suc i, f'))"

text \<open>
  One iteration of the loop of \<^verbatim>\<open>bindStruct\<close>. The state of the loop is the values of
  the fields of \<open>result\<close> and the names in \<open>fieldValues\<close>. A field is settable when its
  name is exported; \<^verbatim>\<open>val[0]\<close> panics on an empty sequence of values.
\<close>

definition bindStruct_entry ::
  "field list \<Rightarrow> string \<Rightarrow> string \<times> string list
    \<Rightarrow> val list \<times> string list \<Rightarrow> BeegoInput
    \<Rightarrow> panic + ((val list \<times> string list) \<times> BeegoInput)" where
  "bindStruct_entry flds key entry acc input =
     (case (entry, acc) of ((reqKey, val), (result, fieldValues)) \<Rightarrow>
        if \<not> HasPrefix reqKey (key @ ''.'') then Inr (acc, input)
        else let fieldName = drop (length key + 1) reqKey
             in if fieldName \<in> set fieldValues then Inr (acc, input)
                else (case FieldByName flds fieldName of
                  None \<Rightarrow> Inr (acc, input)
                | Some (i, exported, ft, bv) \<Rightarrow>
                    if \<not> exported then Inr (acc, input)
                    else (case val of
                      [] \<Rightarrow> Inl IndexOutOfRange
                    | v0 # _ \<Rightarrow>
                        (case bv input v0 of
                           Inl p \<Rightarrow> Inl p
                         | Inr (boundVal, input') \<Rightarrow>
                             (case assignTo boundVal ft of
                                Inl p \<Rightarrow> Inl p
                              | Inr x \<Rightarrow>
                                  Inr ((result[i := x], fieldName # fieldValues), input'))))))"

fun bindStruct_scan ::
  "field list \<Rightarrow> string \<Rightarrow> Values \<Rightarrow> val list \<times> string list \<Rightarrow> BeegoInput
    \<Rightarrow> panic + ((val list \<times> string list) \<times> BeegoInput)" where
  "bindStruct_scan flds key [] acc input = Inr (acc, input)"
| "bindStruct_scan flds key (entry # params) acc input =
     (case bindStruct_entry flds key entry acc input of
        Inl p \<Rightarrow> Inl p
      | Inr (acc', input') \<Rightarrow> bindStruct_scan flds key params acc' input')"

text \<open>
  \<^verbatim>\<open>bindStruct(params, key, typ)\<close>: \<^verbatim>\<open>reflect.New(typ).Elem()\<close> is the zero struct, and it
  is addressable.
\<close>

definition fieldType :: "field \<Rightarrow> string \<times> bool \<times> rtype" where
  "fieldType f = (fst f, fst (snd f), fst (snd (snd f)))"

definition bindStruct ::
  "field list \<Rightarrow> Values option \<Rightarrow> string \<Rightarrow> BeegoInput \<Rightarrow> panic + (Value \<times> BeegoInput)" where
  "bindStruct flds params key input =
     (case bindStruct_scan flds key (entries params)
             (map (\<lambda>f. zero (fst (snd (snd f)))) flds, []) input of
        Inl p \<Rightarrow> Inl p
      | Inr ((result, fieldValues), input') \<Rightarrow>
          Inr (Value (VStruct (map fieldType flds) result) True, input'))"

subsection \<open>Binding a pointer\<close>

text \<open>\<^verbatim>\<open>bindPoint(key, typ)\<close> is \<^verbatim>\<open>input.bind(key, typ.Elem()).Addr()\<close>.\<close>

definition bindPoint :: "bindFn \<Rightarrow> BeegoInput \<Rightarrow> string \<Rightarrow> panic + (Value \<times> BeegoInput)" where
  "bindPoint bk input key =
     (case bk input key of
        Inl p \<Rightarrow> Inl p
      | Inr (v, input') \<Rightarrow>
          (case Addr (allocs input') v of
             Inl p \<Rightarrow> Inl p
           | Inr ptr \<Rightarrow> Inr (ptr, input'\<lparr>allocs := Suc (allocs input')\<rparr>)))"

subsection \<open>Binding a map\<close>

text \<open>
  Go's \<^verbatim>\<open>==\<close> on the keys of a map: floats by their own comparison, structs field by
  field, interface values by dynamic type and value, pointers by address.
\<close>

fun goEq :: "floats \<Rightarrow> val \<Rightarrow> val \<Rightarrow> bool" where
  "goEq F (VFloat w x) (VFloat w' y) = (w = w' \<and> floatEq F x y)"
| "goEq F (VStruct fs xs) (VStruct fs' ys) = (fs = fs' \<and> list_all2 (goEq F) xs ys)"
| "goEq F (VIface ms (Some a)) (VIface ms' (Some b)) =
     (ms = ms' \<and> type_of a = type_of b \<and> goEq F a b)"
| "goEq F (VPtr a _) (VPtr b _) = (a = b)"
| "goEq F a b = (a = b)"

text \<open>\<^verbatim>\<open>Value.SetMapIndex\<close> on the entries of the map: an equal key keeps its place.\<close>

fun mapStore :: "floats \<Rightarrow> val \<Rightarrow> val \<Rightarrow> (val \<times> val) list \<Rightarrow> (val \<times> val) list" where
  "mapStore F k v [] = [(k, v)]"
| "mapStore F k v ((k', v') # kvs) =
     (if goEq F k k' then (k', v) # kvs else (k', v') # mapStore F k v kvs)"

text \<open>
  One iteration of the loop of \<^verbatim>\<open>bindMap\<close>; \<open>bkey\<close> and \<open>bval\<close> are \<^verbatim>\<open>input.bindValue\<close> at
  the key type and at the element type of the map.
\<close>

definition bindMap_entry ::
  "floats \<Rightarrow> bindFn \<Rightarrow> bindFn \<Rightarrow> rtype \<Rightarrow> rtype \<Rightarrow> string \<Rightarrow> string \<times> string list
    \<Rightarrow> (val \<times> val) list \<Rightarrow> BeegoInput
    \<Rightarrow> panic + ((val \<times> val) list \<times> BeegoInput)" where
  "bindMap_entry F bkey bval keyType valueType key entry result input =
     (case entry of (paramName, values) \<Rightarrow>
        if \<not> HasPrefix paramName (key @ ''['') \<or> last paramName \<noteq> CHR '']''
        then Inr (result, input)
        else let key' = slice paramName (int (length key) + 1) (int (length paramName) - 1)
             in (case bkey input key' of
                  Inl p \<Rightarrow> Inl p
                | Inr (k, input') \<Rightarrow>
                    (case values of
                       [] \<Rightarrow> Inl IndexOutOfRange
                     | v0 # _ \<Rightarrow>
                         (case bval input' v0 of
                            Inl p \<Rightarrow> Inl p
                          | Inr (v, input'') \<Rightarrow>
                              (case assignTo k keyType of
                                 Inl p \<Rightarrow> Inl p
                               | Inr k' \<Rightarrow>
                                   (case assignTo v valueType of
                                      Inl p \<Rightarrow> Inl p
                                    | Inr v' \<Rightarrow> Inr (mapStore F k' v' result, input'')))))))"

fun bindMap_scan ::
  "floats \<Rightarrow> bindFn \<Rightarrow> bindFn \<Rightarrow> rtype \<Rightarrow> rtype \<Rightarrow> string \<Rightarrow> Values
    \<Rightarrow> (val \<times> val) list \<Rightarrow> BeegoInput
    \<Rightarrow> panic + ((val \<times> val) list \<times> BeegoInput)" where
  "bindMap_scan F bkey bval keyType valueType key [] result input = Inr (result, input)"
| "bindMap_scan F bkey bval keyType valueType key (entry # params) result input =
     (case bindMap_entry F bkey bval keyType valueType key entry result input of
        Inl p \<Rightarrow> Inl p
      | Inr (result', input') \<Rightarrow>
          bindMap_scan F bkey bval keyType valueType key params result' input')"

definition bindMap ::
  "floats \<Rightarrow> bindFn \<Rightarrow> bindFn \<Rightarrow> rtype \<Rightarrow> rtype \<Rightarrow> Values option \<Rightarrow> string
    \<Rightarrow> BeegoInput \<Rightarrow> panic + (Value \<times> BeegoInput)" where
  "bindMap F bkey bval keyType valueType params key input =
     (case bindMap_scan F bkey bval keyType valueType key (entries params) [] input of
        Inl p \<Rightarrow> Inl p
      | Inr (result, input') \<Rightarrow> Inr (Value (VMap keyType valueType result) False, input'))"

subsection \<open>The dispatch on the kind\<close>

text \<open>
  \<^verbatim>\<open>bind\<close> looks the key up in the request, \<^verbatim>\<open>bindValue\<close> binds a literal. Both start
  from \<^verbatim>\<open>rv := reflect.Zero(reflect.TypeOf(0))\<close>, the zero of type \<^verbatim>\<open>int\<close>, and return
  it for an empty value and for a kind without a case.
\<close>

definition rv0 :: Value where
  "rv0 = Zero (TInt W)"

fun bind :: "floats \<Rightarrow> BeegoInput \<Rightarrow> string \<Rightarrow> rtype \<Rightarrow> panic + (Value \<times> BeegoInput)"
and bindValue :: "floats \<Rightarrow> BeegoInput \<Rightarrow> string \<Rightarrow> rtype \<Rightarrow> panic + (Value \<times> BeegoInput)"
where
  "bind F input key (TInt w) =
     (case Query input key of (val, input') \<Rightarrow>
        if val = [] then Inr (rv0, input') else Inr (bindInt val w, input'))"
| "bind F input key (TUint w) =
     (case Query input key of (val, input') \<Rightarrow>
        if val = [] then Inr (rv0, input') else Inr (bindUint val w, input'))"
| "bind F input key (TFloat w) =
     (case Query input key of (val, input') \<Rightarrow>
        if val = [] then Inr (rv0, input') else Inr (bindFloat F val w, input'))"
| "bind F input key TString =
     (case Query input key of (val, input') \<Rightarrow>
        if val = [] then Inr (rv0, input') else Inr (bindString val, input'))"
| "bind F input key TBool =
     (case Query input key of (val, input') \<Rightarrow>
        if val = [] then Inr (rv0, input') else Inr (bindBool val, input'))"
| "bind F input key (TSlice t) =
     bindSlice (\<lambda>i k. bind F i k t) (\<lambda>i v. bindValue F i v t) (Form input) key t input"
| "bind F input key (TStruct fs) =
     bindStruct
       (map (\<lambda>f. (fst f, fst (snd f), snd (snd f), \<lambda>i v. bindValue F i v (snd (snd f)))) fs)
       (Form input) key input"
| "bind F input key (TPtr t) = bindPoint (\<lambda>i k. bind F i k t) input key"
| "bind F input key (TMap kt vt) =
     bindMap F (\<lambda>i v. bindValue F i v kt) (\<lambda>i v. bindValue F i v vt) kt vt
       (Form input) key input"
| "bind F input key (TInterface ms) = Inr (rv0, input)"
| "bind F input key (TOther k) = Inr (rv0, input)"
| "bindValue F input val (TInt w) = Inr (bindInt val w, input)"
| "bindValue F input val (TUint w) = Inr (bindUint val w, input)"
| "bindValue F input val (TFloat w) = Inr (bindFloat F val w, input)"
| "bindValue F input val TString = Inr (bindString val, input)"
| "bindValue F input val TBool = Inr (bindBool val, input)"
| "bindValue F input val (TSlice t) =
     bindSlice (\<lambda>i k. bind F i k t) (\<lambda>i v. bindValue F i v t) (Some [([], [val])]) [] t input"
| "bindValue F input val (TStruct fs) =
     bindStruct
       (map (\<lambda>f. (fst f, fst (snd f), snd (snd f), \<lambda>i v. bindValue F i v (snd (snd f)))) fs)
       (Some [([], [val])]) [] input"
| "bindValue F input val (TPtr t) = bindPoint (\<lambda>i k. bind F i k t) input val"
| "bindValue F input val (TMap kt vt) =
     bindMap F (\<lambda>i v. bindValue F i v kt) (\<lambda>i v. bindValue F i v vt) kt vt
       (Some [([], [val])]) [] input"
| "bindValue F input val (TInterface ms) = Inr (rv0, input)"
| "bindValue F input val (TOther k) = Inr (rv0, input)"

subsection \<open>The entry point\<close>

text \<open>
  \<^verbatim>\<open>Bind(dest, key)\<close>. The argument \<open>dest\<close> is an interface value: nil (\<open>None\<close>) or a
  value; a pointer \<open>VPtr a cur\<close> points to a variable that holds \<open>cur\<close>, and the
  \<^verbatim>\<open>Elem()\<close> of such a pointer is settable, that of a nil pointer is not. The result is
  the error (\<open>None\<close> is nil), the request and the argument with the variable as the call
  leaves it.
\<close>

definition Bind ::
  "floats \<Rightarrow> BeegoInput \<Rightarrow> val option \<Rightarrow> string
    \<Rightarrow> panic + (string option \<times> BeegoInput \<times> val option)" where
  "Bind F input dest key =
     (case dest of
        None \<Rightarrow> Inr (Some (''beego: non-pointer passed to Bind: '' @ key), input, dest)
      | Some d \<Rightarrow>
          (case type_of d of
             TPtr t \<Rightarrow>
               (case d of
                  VPtr a cur \<Rightarrow>
                    (case bind F input key (type_of cur) of
                       Inl p \<Rightarrow> Inl p
                     | Inr (rv, input') \<Rightarrow>
                         if \<not> IsValid rv
                         then Inr (Some ''beego: reflect value is empty'', input', dest)
                         else (case assignTo rv (type_of cur) of
                                 Inl p \<Rightarrow> Inl p
                               | Inr x \<Rightarrow> Inr (None, input', Some (VPtr a x))))
                | _ \<Rightarrow>
                    Inr (Some (''beego: non-settable variable passed to Bind: '' @ key),
                         input, dest))
           | _ \<Rightarrow> Inr (Some (''beego: non-pointer passed to Bind: '' @ key), input, dest)))"

subsection \<open>Requests for the statements\<close>

text \<open>
  \<open>selects p f es\<close> says of a form \<open>f\<close> (a map: its keys are distinct) that \<open>es\<close> are
  its entries whose key starts with \<open>p\<close>, in some order. \<open>noParam input key\<close> says
  that the route parameters have no value for the key, or the empty one.
\<close>

definition selects :: "string \<Rightarrow> Values \<Rightarrow> Values \<Rightarrow> bool" where
  "selects p f es =
     (distinct (map fst f) \<and> distinct (map fst es) \<and> set es \<subseteq> set f
      \<and> (\<forall>e \<in> set f. HasPrefix (fst e) p \<longrightarrow> e \<in> set es)
      \<and> (\<forall>e \<in> set es. HasPrefix (fst e) p))"

definition noParam :: "BeegoInput \<Rightarrow> string \<Rightarrow> bool" where
  "noParam input key = (Params input key = None \<or> Params input key = Some [])"

text \<open>A request for the examples, with its form parsed.\<close>

definition exampleForm :: Values where
  "exampleForm =
     [(''ul[]'', [''str'', ''array'']), (''ol[1]'', [''2'']), (''id'', [''123'']),
      (''a[]'', [''y'']), (''ol[0]'', [''1'']), (''a[0]'', [''x''])]"

definition exampleInput :: BeegoInput where
  "exampleInput = \<lparr>Params = (\<lambda>k. None), Form = Some exampleForm, RequestData = [], allocs = 0\<rparr>"

text \<open>
  A stand-in for \<^verbatim>\<open>input.bind\<close> and \<^verbatim>\<open>input.bindValue\<close> in the examples of one iteration
  of a loop: it binds a string to itself, which shows the string that the loop passes.
\<close>

definition probe :: bindFn where
  "probe input s = Inr (Value (VString s) False, input)"







section \<open>Properties\<close>

subsection \<open>Slices\<close>

lemma bindSlice_entry_skip:
  "\<not> HasPrefix (fst e) (key @ ''['') \<Longrightarrow> bindSlice_entry bk bv key e acc input = Inr (acc, input)"
  by (cases e; cases acc) (simp add: bindSlice_entry_def)

lemma bindSlice_scan_filter:
  "bindSlice_scan bk bv key params acc input =
     bindSlice_scan bk bv key (filter (\<lambda>e. HasPrefix (fst e) (key @ ''['')) params) acc input"
proof (induction params arbitrary: acc input)
  case Nil
  show ?case by simp
next
  case (Cons e params)
  show ?case
  proof (cases "HasPrefix (fst e) (key @ ''['')")
    case True
    then show ?thesis using Cons by (simp split: sum.splits prod.splits)
  next
    case False
    then have "bindSlice_entry bk bv key e acc input = Inr (acc, input)"
      by (rule bindSlice_entry_skip)
    with False Cons show ?thesis by simp
  qed
qed

lemma selects_set: "selects p f es \<Longrightarrow> set (filter (\<lambda>e. HasPrefix (fst e) p) f) = set es"
  unfolding selects_def by auto

lemma selects_distinct: "selects p f es \<Longrightarrow> distinct (filter (\<lambda>e. HasPrefix (fst e) p) f)"
  unfolding selects_def by (auto simp: distinct_map)

lemma distinct_set_one: "distinct xs \<Longrightarrow> set xs = {a} \<Longrightarrow> xs = [a]"
  by (cases xs) (auto simp: subset_singleton_iff)

lemma distinct_set_two:
  assumes "distinct xs" "set xs = {a, b}" "a \<noteq> b"
  shows "xs = [a, b] \<or> xs = [b, a]"
proof -
  have "length xs = 2"
    using assms distinct_card [of xs] by simp
  then obtain x y where xs: "xs = [x, y]"
    by (auto simp: length_Suc_conv numeral_2_eq_2)
  with assms show ?thesis by (auto simp: doubleton_eq_iff)
qed

lemma selects_one:
  "selects p f [e] \<Longrightarrow> filter (\<lambda>e. HasPrefix (fst e) p) f = [e]"
  using selects_set [of p f "[e]"] selects_distinct [of p f "[e]"]
  by (simp add: distinct_set_one)

lemma selects_two:
  assumes "selects p f [e1, e2]"
  shows "filter (\<lambda>e. HasPrefix (fst e) p) f = [e1, e2]
       \<or> filter (\<lambda>e. HasPrefix (fst e) p) f = [e2, e1]"
proof -
  have "e1 \<noteq> e2" using assms by (auto simp: selects_def)
  with selects_set [OF assms] selects_distinct [OF assms] show ?thesis
    by (intro distinct_set_two) auto
qed

lemma selects_lookup:
  "selects p f es \<Longrightarrow> (k, vs) \<in> set es \<Longrightarrow> map_of f k = Some vs"
  unfolding selects_def by auto

lemma Query_present:
  assumes "noParam input key" "Form input = Some f" "map_of f key = Some (v # vs)"
  shows "Query input key = (v, input)"
  using assms by (auto simp: Query_def Param_def Get_def noParam_def Let_def)

lemma bindSlice_filter:
  "bindSlice bk bv (Some f) key t input =
     bindSlice bk bv (Some (filter (\<lambda>e. HasPrefix (fst e) (key @ ''['')) f)) key t input"
  unfolding bindSlice_def entries_def
  by (subst bindSlice_scan_filter) simp

lemma bindInt_1_2: "bindInt ''1'' w = Value (VInt w 1) True" "bindInt ''2'' w = Value (VInt w 2) True"
  by (cases w; simp add: bindInt_def ParseInt_def isDigit_def SetInt_def)+

lemmas slice_eval =
  bindSlice_def entries_def bindSlice_entry_def HasPrefix_def sliceIndex_def Atoi_def
  ParseInt_def isDigit_def slice_def wrap64_def MakeSlice_def

lemma ol_eval:
  assumes q0: "Query input ''ol[0]'' = (''1'', input)"
    and q1: "Query input ''ol[1]'' = (''2'', input)"
    and es: "es = [(''ol[0]'', [''1'']), (''ol[1]'', [''2''])]
           \<or> es = [(''ol[1]'', [''2'']), (''ol[0]'', [''1''])]"
  shows "bindSlice (\<lambda>i k. bind F i k (TInt w)) (\<lambda>i v. bindValue F i v (TInt w))
           (Some es) ''ol'' (TInt w) input
         = Inr (Value (VSlice (TInt w) [VInt w 1, VInt w 2]) False, input)"
  using es
proof
  assume "es = [(''ol[0]'', [''1'']), (''ol[1]'', [''2''])]"
  then show ?thesis
    by (simp add: slice_eval q0 q1 bindInt_1_2 numeral_2_eq_2)
next
  assume "es = [(''ol[1]'', [''2'']), (''ol[0]'', [''1''])]"
  then show ?thesis
    by (simp add: slice_eval q0 q1 bindInt_1_2 numeral_2_eq_2)
qed

lemma ul_eval:
  "bindSlice (\<lambda>i k. bind F i k TString) (\<lambda>i v. bindValue F i v TString)
           (Some [(''ul[]'', [''str'', ''array''])]) ''ul'' TString input
         = Inr (Value (VSlice TString [VString ''str'', VString ''array'']) False, input)"
  by (simp add: slice_eval bindString_def)

lemma a_eval:
  assumes q0: "Query input ''a[0]'' = (''x'', input)"
    and es: "es = [(''a[0]'', [''x'']), (''a[]'', [''y''])]
           \<or> es = [(''a[]'', [''y'']), (''a[0]'', [''x''])]"
  shows "bindSlice (\<lambda>i k. bind F i k TString) (\<lambda>i v. bindValue F i v TString)
           (Some es) ''a'' TString input
         = Inr (Value (VSlice TString [VString ''x'', VString ''y'']) False, input)"
  using es
proof
  assume "es = [(''a[0]'', [''x'']), (''a[]'', [''y''])]"
  then show ?thesis
    by (simp add: slice_eval q0 bindString_def)
next
  assume "es = [(''a[]'', [''y'']), (''a[0]'', [''x''])]"
  then show ?thesis
    by (simp add: slice_eval q0 bindString_def)
qed

lemma Bind_slice:
  assumes "type_of cur = TSlice t"
    and "bind F input key (TSlice t) = Inr (Value (VSlice t xs) False, input')"
  shows "Bind F input (Some (VPtr a cur)) key = Inr (None, input', Some (VPtr a (VSlice t xs)))"
  using assms by (simp add: Bind_def)

text \<open>
  Claim C1. Take a request whose form is parsed and a pointer to a slice variable.
  When the entries of the form under \<^verbatim>\<open>ol[\<close> are \<^verbatim>\<open>ol[0]=1\<close> and \<^verbatim>\<open>ol[1]=2\<close>, \<^verbatim>\<open>Bind\<close> with
  the key \<^verbatim>\<open>ol\<close> stores \<^verbatim>\<open>[1, 2]\<close> in a slice of any signed integer kind. When the only
  entry under \<^verbatim>\<open>ul[\<close> is \<^verbatim>\<open>ul[]\<close> with the values \<^verbatim>\<open>str\<close>, \<^verbatim>\<open>array\<close>, \<^verbatim>\<open>Bind\<close> with the key \<^verbatim>\<open>ul\<close>
  stores \<^verbatim>\<open>["str", "array"]\<close> in a slice of strings. When the entries under \<^verbatim>\<open>a[\<close> are
  \<^verbatim>\<open>a[0]=x\<close> and \<^verbatim>\<open>a[]=y\<close>, \<^verbatim>\<open>Bind\<close> with the key \<^verbatim>\<open>a\<close> stores a slice of length 2 with \<^verbatim>\<open>x\<close>
  at index 0 and \<^verbatim>\<open>y\<close> after it. This holds in whatever order the map is iterated and
  whatever other keys the form has; the error is nil and the request is unchanged.
\<close>

theorem Bind_slice_examples:
  "(Form input = Some f
      \<and> selects ''ol['' f [(''ol[0]'', [''1'']), (''ol[1]'', [''2''])]
      \<and> noParam input ''ol[0]'' \<and> noParam input ''ol[1]'' \<and> type_of cur = TSlice (TInt w)
    \<longrightarrow> Bind F input (Some (VPtr a cur)) ''ol''
          = Inr (None, input, Some (VPtr a (VSlice (TInt w) [VInt w 1, VInt w 2]))))
   \<and> (Form input = Some f
      \<and> selects ''ul['' f [(''ul[]'', [''str'', ''array''])] \<and> type_of cur = TSlice TString
    \<longrightarrow> Bind F input (Some (VPtr a cur)) ''ul''
          = Inr (None, input, Some (VPtr a (VSlice TString [VString ''str'', VString ''array'']))))
   \<and> (Form input = Some f
      \<and> selects ''a['' f [(''a[0]'', [''x'']), (''a[]'', [''y''])]
      \<and> noParam input ''a[0]'' \<and> type_of cur = TSlice TString
    \<longrightarrow> Bind F input (Some (VPtr a cur)) ''a''
          = Inr (None, input, Some (VPtr a (VSlice TString [VString ''x'', VString ''y'']))))"
proof (intro conjI impI; elim conjE)
  assume form: "Form input = Some f"
    and sel: "selects ''ol['' f [(''ol[0]'', [''1'']), (''ol[1]'', [''2''])]"
    and np: "noParam input ''ol[0]''" "noParam input ''ol[1]''"
    and ty: "type_of cur = TSlice (TInt w)"
  have q0: "Query input ''ol[0]'' = (''1'', input)"
    using np(1) form selects_lookup [OF sel, of "''ol[0]''" "[''1'']"] by (intro Query_present) auto
  have q1: "Query input ''ol[1]'' = (''2'', input)"
    using np(2) form selects_lookup [OF sel, of "''ol[1]''" "[''2'']"] by (intro Query_present) auto
  have "bind F input ''ol'' (TSlice (TInt w))
          = Inr (Value (VSlice (TInt w) [VInt w 1, VInt w 2]) False, input)"
    using selects_two [OF sel] ol_eval [OF q0 q1]
    by (simp add: form bindSlice_filter [of _ _ f])
  with ty show "Bind F input (Some (VPtr a cur)) ''ol''
          = Inr (None, input, Some (VPtr a (VSlice (TInt w) [VInt w 1, VInt w 2])))"
    by (rule Bind_slice)
next
  assume form: "Form input = Some f"
    and sel: "selects ''ul['' f [(''ul[]'', [''str'', ''array''])]"
    and ty: "type_of cur = TSlice TString"
  have "bind F input ''ul'' (TSlice TString)
          = Inr (Value (VSlice TString [VString ''str'', VString ''array'']) False, input)"
    using selects_one [OF sel] ul_eval
    by (simp add: form bindSlice_filter [of _ _ f])
  with ty show "Bind F input (Some (VPtr a cur)) ''ul''
          = Inr (None, input, Some (VPtr a (VSlice TString [VString ''str'', VString ''array''])))"
    by (rule Bind_slice)
next
  assume form: "Form input = Some f"
    and sel: "selects ''a['' f [(''a[0]'', [''x'']), (''a[]'', [''y''])]"
    and np: "noParam input ''a[0]''"
    and ty: "type_of cur = TSlice TString"
  have q0: "Query input ''a[0]'' = (''x'', input)"
    using np form selects_lookup [OF sel, of "''a[0]''" "[''x'']"] by (intro Query_present) auto
  have "bind F input ''a'' (TSlice TString)
          = Inr (Value (VSlice TString [VString ''x'', VString ''y'']) False, input)"
    using selects_two [OF sel] a_eval [OF q0]
    by (simp add: form bindSlice_filter [of _ _ f])
  with ty show "Bind F input (Some (VPtr a cur)) ''a''
          = Inr (None, input, Some (VPtr a (VSlice TString [VString ''x'', VString ''y''])))"
    by (rule Bind_slice)
qed

theorem Bind_slice_examples_witness:
  "Bind exampleFloats exampleInput (Some (VPtr 0 (VSlice (TInt W) []))) ''ol''
     = Inr (None, exampleInput, Some (VPtr 0 (VSlice (TInt W) [VInt W 1, VInt W 2])))
   \<and> Bind exampleFloats exampleInput (Some (VPtr 0 (VZero (TSlice TString)))) ''ul''
     = Inr (None, exampleInput, Some (VPtr 0 (VSlice TString [VString ''str'', VString ''array''])))
   \<and> Bind exampleFloats exampleInput (Some (VPtr 0 (VZero (TSlice TString)))) ''a''
     = Inr (None, exampleInput, Some (VPtr 0 (VSlice TString [VString ''x'', VString ''y''])))"
proof -
  have form: "Form exampleInput = Some exampleForm" by (simp add: exampleInput_def)
  have s1: "selects ''ol['' exampleForm [(''ol[0]'', [''1'']), (''ol[1]'', [''2''])]"
    and s2: "selects ''ul['' exampleForm [(''ul[]'', [''str'', ''array''])]"
    and s3: "selects ''a['' exampleForm [(''a[0]'', [''x'']), (''a[]'', [''y''])]"
    by (simp_all add: selects_def exampleForm_def HasPrefix_def)
  have np: "noParam exampleInput ''ol[0]''" "noParam exampleInput ''ol[1]''"
    "noParam exampleInput ''a[0]''"
    by (simp_all add: noParam_def exampleInput_def)
  show ?thesis
    using Bind_slice_examples [of exampleInput exampleForm "VSlice (TInt W) []" W exampleFloats 0]
      Bind_slice_examples [of exampleInput exampleForm "VZero (TSlice TString)" W exampleFloats 0]
      form s1 s2 s3 np
    by simp
qed

subsection \<open>Structs\<close>
















subsection \<open>Maps\<close>













subsection \<open>Integers and floats\<close>

lemma digitsValue_append: "digitsValue acc (xs @ ys) = digitsValue (digitsValue acc xs) ys"
  by (induction xs arbitrary: acc) auto

lemma of_char_digit: "d < 10 \<Longrightarrow> (of_char (char_of (48 + d :: nat)) :: nat) = 48 + d"
  by simp

lemma isDigit_digit: "d < 10 \<Longrightarrow> isDigit (char_of (48 + d :: nat))"
  by (simp add: isDigit_def)

lemma FormatUint_digits: "list_all isDigit (FormatUint n) \<and> FormatUint n \<noteq> []"
proof (induction n rule: FormatUint.induct)
  case (1 n)
  show ?case
  proof (cases "n < 10")
    case True
    then show ?thesis by (subst (1 2) FormatUint.simps) (simp add: isDigit_digit)
  next
    case False
    have "n mod 10 < 10" by simp
    then have "isDigit (char_of (48 + n mod 10))" by (rule isDigit_digit)
    with False 1 show ?thesis by (subst (1 2) FormatUint.simps) simp
  qed
qed

lemma digitsValue_FormatUint: "digitsValue 0 (FormatUint n) = n"
proof (induction n rule: FormatUint.induct)
  case (1 n)
  show ?case
  proof (cases "n < 10")
    case True
    then show ?thesis by (subst FormatUint.simps) (simp add: of_char_digit)
  next
    case False
    have m: "n mod 10 < 10" by simp
    have "digitsValue 0 (FormatUint n) = digitsValue (n div 10) [char_of (48 + n mod 10)]"
      using False 1 by (subst FormatUint.simps) (simp add: digitsValue_append)
    also have "\<dots> = n div 10 * 10 + n mod 10"
      using of_char_digit [OF m] by simp
    finally show ?thesis by simp
  qed
qed

lemma hd_FormatUint: "isDigit (hd (FormatUint n))"
  using FormatUint_digits [of n] by (cases "FormatUint n") auto

lemma isDigit_not_sign: "isDigit c \<Longrightarrow> c \<noteq> CHR ''+'' \<and> c \<noteq> CHR ''-''"
  by (auto simp: isDigit_def)

lemma ParseUint_FormatUint:
  "ParseUint (FormatUint n) = (if n < 2 ^ 64 then (int n, True) else (2 ^ 64 - 1, False))"
proof -
  have "int n > 2 ^ 64 - 1 \<longleftrightarrow> \<not> n < 2 ^ 64"
    by (metis (no_types) not_less of_nat_less_iff of_nat_numeral of_nat_power zle_diff1_eq)
  then show ?thesis 
    using FormatUint_digits [of n]
    by (simp add: ParseUint_def digitsValue_FormatUint Let_def)
qed

lemma ParseInt_FormatInt:
  "ParseInt (FormatInt i) =
     (if i \<ge> 2 ^ 63 then (2 ^ 63 - 1, False)
      else if i < - (2 ^ 63) then (- (2 ^ 63), False) else (i, True))"
proof (cases "i < 0")
  case True
  then show ?thesis
    using FormatUint_digits [of "nat (- i)"]
    by (simp add: ParseInt_def FormatInt_def digitsValue_FormatUint Let_def)
next
  case False
  have "hd (FormatUint (nat i)) \<noteq> CHR ''+'' \<and> hd (FormatUint (nat i)) \<noteq> CHR ''-''"
    using hd_FormatUint isDigit_not_sign by blast
  then show ?thesis
    using False FormatUint_digits [of "nat i"]
    by (simp add: ParseInt_def FormatInt_def digitsValue_FormatUint Let_def)
qed

lemma ParseInt_nonnumeric:
  assumes "\<forall>sign ds. s = sign @ ds \<and> (sign = [] \<or> sign = ''+'' \<or> sign = ''-'')
             \<longrightarrow> ds = [] \<or> \<not> list_all isDigit ds"
  shows "ParseInt s = (0, False)"
proof (cases s)
  case Nil
  then show ?thesis by (simp add: ParseInt_def)
next
  case (Cons c cs)
  show ?thesis
  proof (cases "c = CHR ''+'' \<or> c = CHR ''-''")
    case True
    then have "s = ''+'' @ cs \<or> s = ''-'' @ cs" using Cons by auto
    with assms have "cs = [] \<or> \<not> list_all isDigit cs" by blast
    then show ?thesis using Cons True by (auto simp: ParseInt_def Let_def)
  next
    case False
    have "s = [] @ s" by simp
    with assms have "s = [] \<or> \<not> list_all isDigit s" by blast
    then show ?thesis using Cons False by (auto simp: ParseInt_def Let_def)
  qed
qed

text \<open>
  Claim C4, as stated, fails: \<^verbatim>\<open>"300"\<close> is out of the range of \<^verbatim>\<open>int8\<close>, and \<^verbatim>\<open>bindInt\<close>
  binds it to 44, not to the zero value. The string is parsed as a 64-bit integer and
  \<^verbatim>\<open>SetInt\<close> keeps the low 8 bits.
\<close>

theorem bindInt_out_of_range_wraps:
  "bindInt ''300'' W8 = Value (VInt W8 44) True \<and> bindInt ''300'' W8 \<noteq> Zero (TInt W8)
   \<and> \<not> (- (2 ^ 7) \<le> (300::int) \<and> (300::int) < 2 ^ 7)"
  by (simp add: bindInt_def ParseInt_def isDigit_def SetInt_def Zero_def)

text \<open>
  Claim C4, amended. For every signed and unsigned integer width:
  the decimal representation of a number of the 64-bit range is bound to that number
  reduced to the width of the kind, which is the number itself when it is in the range
  of the kind (the round trip); the representation of a number outside the 64-bit range
  and a string that is not a number are bound to the zero value. For the floats, a
  string that \<^verbatim>\<open>ParseFloat\<close> rejects is bound to the zero value and one that it accepts to
  the parsed \<^verbatim>\<open>float64\<close>, converted to \<^verbatim>\<open>float32\<close> for that kind. The functions return a
  Value in every case: there is no error.
\<close>

theorem scalar_round_trip:
  "(- (2 ^ 63) \<le> i \<and> i < 2 ^ 63 \<longrightarrow>
      bindInt (FormatInt i) w = Value (VInt w (signed_take_bit (bits w - 1) i)) True)
   \<and> (- (2 ^ (bits w - 1)) \<le> i \<and> i < 2 ^ (bits w - 1) \<longrightarrow>
      bindInt (FormatInt i) w = Value (VInt w i) True)
   \<and> (i < - (2 ^ 63) \<or> 2 ^ 63 \<le> i \<longrightarrow> bindInt (FormatInt i) w = Zero (TInt w))
   \<and> ((\<forall>sign ds. s = sign @ ds \<and> (sign = [] \<or> sign = ''+'' \<or> sign = ''-'')
          \<longrightarrow> ds = [] \<or> \<not> list_all isDigit ds) \<longrightarrow> bindInt s w = Zero (TInt w))
   \<and> (n < 2 ^ 64 \<longrightarrow>
      bindUint (FormatUint n) w = Value (VUint w (int n mod 2 ^ bits w)) True)
   \<and> (n < 2 ^ bits w \<longrightarrow> bindUint (FormatUint n) w = Value (VUint w (int n)) True)
   \<and> (2 ^ 64 \<le> n \<longrightarrow> bindUint (FormatUint n) w = Zero (TUint w))
   \<and> (s = [] \<or> \<not> list_all isDigit s \<longrightarrow> bindUint s w = Zero (TUint w))
   \<and> (ParseFloat F s = None \<longrightarrow> bindFloat F s fw = Zero (TFloat fw))
   \<and> (ParseFloat F s = Some x \<longrightarrow>
        bindFloat F s F64 = Value (VFloat F64 x) True
        \<and> bindFloat F s F32 = Value (VFloat F32 (toFloat32 F x)) True)"
proof -
  have a: "bindInt (FormatInt i) w = Value (VInt w (signed_take_bit (bits w - 1) i)) True"
    if "- (2 ^ 63) \<le> i \<and> i < 2 ^ 63"
    using that by (simp add: bindInt_def ParseInt_FormatInt SetInt_def)
  have le: "(2::int) ^ (bits w - 1) \<le> 2 ^ 63"
    by (cases w) simp_all
  have b: "bindInt (FormatInt i) w = Value (VInt w i) True"
    if r: "- (2 ^ (bits w - 1)) \<le> i \<and> i < 2 ^ (bits w - 1)"
  proof -
    from r le have "- (2 ^ 63) \<le> i \<and> i < 2 ^ 63" by linarith
    from a [OF this] r show ?thesis by (simp add: signed_take_bit_int_eq_self)
  qed
  have c: "bindInt (FormatInt i) w = Zero (TInt w)" if "i < - (2 ^ 63) \<or> 2 ^ 63 \<le> i"
    using that by (auto simp: bindInt_def ParseInt_FormatInt)
  have d: "bindInt s w = Zero (TInt w)"
    if "\<forall>sign ds. s = sign @ ds \<and> (sign = [] \<or> sign = ''+'' \<or> sign = ''-'')
          \<longrightarrow> ds = [] \<or> \<not> list_all isDigit ds"
    using ParseInt_nonnumeric [OF that] by (simp add: bindInt_def)
  have e: "bindUint (FormatUint n) w = Value (VUint w (int n mod 2 ^ bits w)) True"
    if "n < 2 ^ 64"
    using that by (simp add: bindUint_def ParseUint_FormatUint SetUint_def take_bit_eq_mod)
  have le': "(2::nat) ^ bits w \<le> 2 ^ 64"
    by (cases w) simp_all
  have f: "bindUint (FormatUint n) w = Value (VUint w (int n)) True" if r: "n < 2 ^ bits w"
  proof -
    from r le' have "n < 2 ^ 64" by linarith
    moreover from r have "int n < 2 ^ bits w"
      by (metis of_nat_less_iff of_nat_numeral of_nat_power)
    ultimately show ?thesis using e by simp
  qed
  have g: "bindUint (FormatUint n) w = Zero (TUint w)" if "2 ^ 64 \<le> n"
    using that by (simp add: bindUint_def ParseUint_FormatUint)
  have h: "bindUint s w = Zero (TUint w)" if "s = [] \<or> \<not> list_all isDigit s"
    using that by (auto simp: bindUint_def ParseUint_def)
  have k: "bindFloat F s fw = Zero (TFloat fw)" if "ParseFloat F s = None"
    using that by (simp add: bindFloat_def)
  have l: "bindFloat F s F64 = Value (VFloat F64 x) True
        \<and> bindFloat F s F32 = Value (VFloat F32 (toFloat32 F x)) True"
    if "ParseFloat F s = Some x"
    using that by (simp add: bindFloat_def SetFloat_def)
  from a b c d e f g h k l show ?thesis by blast
qed


lemma char_of_digits:
  "char_of (48::nat) = CHR ''0''" "char_of (49::nat) = CHR ''1''" "char_of (50::nat) = CHR ''2''"
  "char_of (51::nat) = CHR ''3''" "char_of (52::nat) = CHR ''4''" "char_of (53::nat) = CHR ''5''"
  "char_of (54::nat) = CHR ''6''" "char_of (55::nat) = CHR ''7''" "char_of (56::nat) = CHR ''8''"
  "char_of (57::nat) = CHR ''9''"
  by code_simp+

lemma fmt: "FormatInt 127 = ''127''" "FormatInt (-128) = ''-128''" "FormatInt 300 = ''300''"
  "FormatInt 9223372036854775808 = ''9223372036854775808''" 
  "FormatUint 255 = ''255''" "FormatUint 256 = ''256''"
  "FormatUint 18446744073709551616 = ''18446744073709551616''"
  by (simp_all add: FormatInt_def FormatUint.simps char_of_digits)


theorem scalar_round_trip_witness:
  "bindInt ''127'' W8 = Value (VInt W8 127) True
   \<and> bindInt ''-128'' W8 = Value (VInt W8 (-128)) True
   \<and> bindInt ''300'' W8 = Value (VInt W8 44) True
   \<and> bindInt ''9223372036854775808'' W64 = Value (VInt W64 0) False
   \<and> bindInt ''12a'' W = Value (VInt W 0) False
   \<and> bindUint ''255'' W8 = Value (VUint W8 255) True
   \<and> bindUint ''256'' W8 = Value (VUint W8 0) True
   \<and> bindUint ''18446744073709551616'' W64 = Value (VUint W64 0) False
   \<and> bindUint ''-1'' W = Value (VUint W 0) False
   \<and> bindFloat exampleFloats ''x'' F64 = Value (VFloat F64 0) False
   \<and> bindFloat exampleFloats ''1'' F64 = Value (VFloat F64 0x3FF0000000000000) True"
proof -
  have nn: "\<forall>sign ds. ''12a'' = sign @ ds \<and> (sign = [] \<or> sign = ''+'' \<or> sign = ''-'')
          \<longrightarrow> ds = [] \<or> \<not> list_all isDigit ds"
    by (auto simp: isDigit_def append_eq_Cons_conv)
  have nd: "''-1'' = [] \<or> \<not> list_all isDigit ''-1''" by (simp add: isDigit_def)
  have pn: "ParseFloat exampleFloats ''x'' = None"
    and ps: "ParseFloat exampleFloats ''1'' = Some 0x3FF0000000000000"
    by (simp_all add: exampleFloats_def)
  note t1 = scalar_round_trip [where i = 127 and w = W8 and n = 255 and s = "''x''"
      and F = exampleFloats and fw = F64 and x = 0]
  note t2 = scalar_round_trip [where i = "-128" and w = W8 and n = 256 and s = "''1''"
      and F = exampleFloats and fw = F64 and x = "0x3FF0000000000000"]
  note t3 = scalar_round_trip [where i = 300 and w = W8 and n = 0 and s = "''x''"
      and F = exampleFloats and fw = F64 and x = 0]
  note t4 = scalar_round_trip [where i = 9223372036854775808 and w = W64
      and n = 18446744073709551616 and s = "''x''" and F = exampleFloats and fw = F64 and x = 0]
  note t5 = scalar_round_trip [where i = 0 and w = W and n = 0 and s = "''12a''"
      and F = exampleFloats and fw = F64 and x = 0]
  note t6 = scalar_round_trip [where i = 0 and w = W and n = 0 and s = "''-1''"
      and F = exampleFloats and fw = F64 and x = 0]
  have 1: "bindInt ''127'' W8 = Value (VInt W8 127) True"
    and 6: "bindUint ''255'' W8 = Value (VUint W8 255) True"
    and 10: "bindFloat exampleFloats ''x'' F64 = Value (VFloat F64 0) False"
    using t1 pn by (simp_all add: fmt Zero_def)
  have 2: "bindInt ''-128'' W8 = Value (VInt W8 (-128)) True"
    and 7: "bindUint ''256'' W8 = Value (VUint W8 0) True"
    and 11: "bindFloat exampleFloats ''1'' F64 = Value (VFloat F64 0x3FF0000000000000) True"
    using t2 ps by (simp_all add: fmt)
  have 3: "bindInt ''300'' W8 = Value (VInt W8 44) True"
    using t3 by (simp add: fmt)
  have 4: "bindInt ''9223372036854775808'' W64 = Value (VInt W64 0) False"
    and 8: "bindUint ''18446744073709551616'' W64 = Value (VUint W64 0) False"
    using t4 by (simp_all add: fmt Zero_def)
  have 5: "bindInt ''12a'' W = Value (VInt W 0) False"
    using t5 nn by (simp add: Zero_def)
  have 9: "bindUint ''-1'' W = Value (VUint W 0) False"
    using t6 nd by (simp add: Zero_def)
  from 1 2 3 4 5 6 7 8 9 10 11 show ?thesis by simp
qed

subsection \<open>One iteration of the slice loop\<close>

lemma IndexByte_first:
  "c \<notin> set xs \<Longrightarrow> IndexByte (xs @ c # ys) c = int (length xs)"
  by (induction xs) (auto simp: Let_def)

lemma ParseInt_digits:
  assumes "tok \<noteq> []" "list_all isDigit tok" "digitsValue 0 tok < 2 ^ 63"
  shows "ParseInt tok = (int (digitsValue 0 tok), True)"
proof -
  from assms(1,2) have "isDigit (hd tok)" by (cases tok) auto
  then have "hd tok \<noteq> CHR ''+''" "hd tok \<noteq> CHR ''-''"
    using isDigit_not_sign by blast+
  moreover have "int (digitsValue 0 tok) < 2 ^ 63"
    using assms(3) by (metis of_nat_less_iff of_nat_numeral of_nat_power)
  ultimately show ?thesis using assms(1,2) by (simp add: ParseInt_def Let_def)
qed

lemma sliceIndex_bracket:
  assumes "CHR '']'' \<notin> set tok"
  shows "sliceIndex key (key @ CHR ''['' # tok @ CHR '']'' # rest) =
           (if tok = [] then -1 else fst (Atoi tok), int (length key) + int (length tok) + 2)"
proof -
  have "IndexByte ((CHR ''['' # tok) @ CHR '']'' # rest) (CHR '']'')
          = int (length (CHR ''['' # tok))"
    using assms by (intro IndexByte_first) auto
  then have ib: "IndexByte (drop (length key) (key @ CHR ''['' # tok @ CHR '']'' # rest)) (CHR '']'')
          = int (length tok) + 1" by simp
  have sl: "slice (key @ CHR ''['' # tok @ CHR '']'' # rest) (int (length key) + 1)
              (int (length tok) + 1 + int (length key)) = tok"
    by (simp add: slice_def nat_add_distrib)
  show ?thesis
    unfolding sliceIndex_def ib Let_def sl
    by (cases tok) (auto)
qed

lemma slice_front:
  "slice (key @ CHR ''['' # tok @ CHR '']'' # rest) 0 (int (length key) + int (length tok) + 2)
     = key @ CHR ''['' # tok @ '']''"
  by (simp add: slice_def nat_add_distrib)

lemma HasPrefix_append: "HasPrefix (p @ s) p"
  by (simp add: HasPrefix_def)

text \<open>
  Claim C6, as stated, fails twice. The token \<^verbatim>\<open>x\<close> of the key \<^verbatim>\<open>a[x]\<close> is not a number, and
  the entry is an indexed element all the same, at index 0: \<^verbatim>\<open>Atoi\<close> returns 0 with the error
  that the code drops. And the element of the key \<^verbatim>\<open>a[0].Name\<close> is bound by key on \<^verbatim>\<open>a[0]\<close>,
  the key cut after the bracket, not on the key with its remainder.
\<close>

theorem bindSlice_entry_not_number:
  "Atoi ''x'' = (0, False)
   \<and> bindSlice_entry probe probe ''a'' (''a[x]'', [''7'']) (-1, 0, []) exampleInput
       = Inr ((0, 0, [(0, Value (VString ''a[x]'') False)]), exampleInput)
   \<and> bind exampleFloats
        \<lparr>Params = (\<lambda>k. None), Form = Some [(''a[x]'', [''7''])], RequestData = [], allocs = 0\<rparr>
        ''a'' (TSlice (TInt W))
       = Inr (Value (VSlice (TInt W) [VInt W 7]) False,
              \<lparr>Params = (\<lambda>k. None), Form = Some [(''a[x]'', [''7''])], RequestData = [], allocs = 0\<rparr>)
   \<and> bindSlice_entry probe probe ''a'' (''a[0].Name'', [''7'']) (-1, 0, []) exampleInput
       = Inr ((0, 0, [(0, Value (VString ''a[0]'') False)]), exampleInput)
   \<and> ''a[0]'' \<noteq> ''a[0].Name''"
  by (simp add: slice_eval probe_def Query_def Param_def Get_def bindInt_def SetInt_def)

text \<open>
  Claim C6, amended. Take a form key made of the prefix, \<^verbatim>\<open>[\<close>, a token without \<^verbatim>\<open>]\<close>, \<^verbatim>\<open>]\<close>
  and a remainder. When the token is a non-empty string of decimal digits with a value
  \<open>N\<close> below \<open>2 ^ 63\<close>, the iteration records one indexed element at position \<open>N\<close>, bound
  by key on the prefix, \<^verbatim>\<open>[\<close>, the token and \<^verbatim>\<open>]\<close> (without the remainder), and raises the
  maximal index to \<open>N\<close>. When the token is empty, the iteration records every value of
  the entry as an un-indexed element (index -1), bound by literal against the element
  type, in their order, and adds their number to the count.
\<close>

theorem bindSlice_entry_bracket:
  assumes "CHR '']'' \<notin> set tok"
  shows "(tok \<noteq> [] \<and> list_all isDigit tok \<and> digitsValue 0 tok < 2 ^ 63 \<longrightarrow>
           bindSlice_entry bk bv key (key @ CHR ''['' # tok @ CHR '']'' # rest, vals)
               (maxIndex, numNoIndex, sliceValues) input
           = (case bk input (key @ CHR ''['' # tok @ '']'') of
                Inl p \<Rightarrow> Inl p
              | Inr (v, input') \<Rightarrow>
                  Inr ((max maxIndex (int (digitsValue 0 tok)), numNoIndex,
                        sliceValues @ [(int (digitsValue 0 tok), v)]), input')))
       \<and> (tok = [] \<longrightarrow>
           bindSlice_entry bk bv key (key @ CHR ''['' # tok @ CHR '']'' # rest, vals)
               (maxIndex, numNoIndex, sliceValues) input
           = (case bindSlice_vals bv vals sliceValues input of
                Inl p \<Rightarrow> Inl p
              | Inr (sliceValues', input') \<Rightarrow>
                  Inr ((maxIndex, wrap64 (numNoIndex + int (length vals)), sliceValues'),
                       input')))
       \<and> ((\<forall>val \<in> set vals. bv input val = Inr (g val, input)) \<longrightarrow>
           bindSlice_vals bv vals sliceValues input
           = Inr (sliceValues @ map (\<lambda>val. (-1, g val)) vals, input))"
proof (intro conjI impI)
  assume d: "tok \<noteq> [] \<and> list_all isDigit tok \<and> digitsValue 0 tok < 2 ^ 63"
  then have "ParseInt tok = (int (digitsValue 0 tok), True)"
    by (intro ParseInt_digits) auto
  then have idx: "sliceIndex key (key @ CHR ''['' # tok @ CHR '']'' # rest)
      = (int (digitsValue 0 tok), int (length key) + int (length tok) + 2)"
    using d by (simp add: sliceIndex_bracket [OF assms] Atoi_def)
  have pre: "HasPrefix (key @ CHR ''['' # tok @ CHR '']'' # rest) (key @ ''['')"
    using HasPrefix_append [of "key @ ''[''" "tok @ CHR '']'' # rest"] by simp
  show "bindSlice_entry bk bv key (key @ CHR ''['' # tok @ CHR '']'' # rest, vals)
               (maxIndex, numNoIndex, sliceValues) input
           = (case bk input (key @ CHR ''['' # tok @ '']'') of
                Inl p \<Rightarrow> Inl p
              | Inr (v, input') \<Rightarrow>
                  Inr ((max maxIndex (int (digitsValue 0 tok)), numNoIndex,
                        sliceValues @ [(int (digitsValue 0 tok), v)]), input'))"
    unfolding bindSlice_entry_def using pre
    by (simp add: idx slice_front)
next
  assume e: "tok = []"
  have idx: "sliceIndex key (key @ CHR ''['' # tok @ CHR '']'' # rest)
      = (-1, int (length key) + int (length tok) + 2)"
    using e sliceIndex_bracket [OF assms, of key rest] by simp
  have pre: "HasPrefix (key @ CHR ''['' # tok @ CHR '']'' # rest) (key @ ''['')"
    using HasPrefix_append [of "key @ ''[''" "tok @ CHR '']'' # rest"] by simp
  show "bindSlice_entry bk bv key (key @ CHR ''['' # tok @ CHR '']'' # rest, vals)
               (maxIndex, numNoIndex, sliceValues) input
           = (case bindSlice_vals bv vals sliceValues input of
                Inl p \<Rightarrow> Inl p
              | Inr (sliceValues', input') \<Rightarrow>
                  Inr ((maxIndex, wrap64 (numNoIndex + int (length vals)), sliceValues'),
                       input'))"
    unfolding bindSlice_entry_def using pre
    by (simp add: idx)
next
  assume "\<forall>val \<in> set vals. bv input val = Inr (g val, input)"
  then show "bindSlice_vals bv vals sliceValues input
           = Inr (sliceValues @ map (\<lambda>val. (-1, g val)) vals, input)"
    by (induction vals arbitrary: sliceValues) auto
qed

theorem bindSlice_entry_bracket_witness:
  "bindSlice_entry probe probe ''a'' (''a[12].Name'', [''v'']) (3, 0, []) exampleInput
     = Inr ((12, 0, [(12, Value (VString ''a[12]'') False)]), exampleInput)
   \<and> bindSlice_entry probe probe ''ul'' (''ul[]'', [''str'', ''array'']) (-1, 0, []) exampleInput
     = Inr ((-1, 2, [(-1, Value (VString ''str'') False), (-1, Value (VString ''array'') False)]),
            exampleInput)"
proof -
  have n12: "CHR '']'' \<notin> set ''12''" and n0: "CHR '']'' \<notin> set []" by simp_all
  have d: "''12'' \<noteq> [] \<and> list_all isDigit ''12'' \<and> digitsValue 0 ''12'' < 2 ^ 63"
    by (simp add: isDigit_def)
  have g: "\<forall>val \<in> set [''str'', ''array''].
             probe exampleInput val = Inr (Value (VString val) False, exampleInput)"
    by (simp add: probe_def)
  from bindSlice_entry_bracket [OF n12, of probe probe "''a''" "''.Name''" "[''v'']" 3 0 "[]"
      exampleInput "\<lambda>val. Value (VString val) False"] d
  have 1: "bindSlice_entry probe probe ''a'' (''a[12].Name'', [''v'']) (3, 0, []) exampleInput
     = Inr ((12, 0, [(12, Value (VString ''a[12]'') False)]), exampleInput)"
    by (simp add: probe_def)
  from bindSlice_entry_bracket [OF n0, of probe probe "''ul''" "[]" "[''str'', ''array'']" "-1" 0 "[]"
      exampleInput "\<lambda>val. Value (VString val) False"] g
  have 2: "bindSlice_entry probe probe ''ul'' (''ul[]'', [''str'', ''array'']) (-1, 0, []) exampleInput
     = Inr ((-1, 2, [(-1, Value (VString ''str'') False), (-1, Value (VString ''array'') False)]),
            exampleInput)"
    by (simp add: wrap64_def)
  from 1 2 show ?thesis by simp
qed

subsection \<open>Booleans\<close>










subsection \<open>The entry point\<close>

text \<open>
  Claim C2. When the argument of \<^verbatim>\<open>Bind\<close> is not a pointer to a variable (it is nil, a
  value of another kind, or a nil pointer, whose \<^verbatim>\<open>Elem()\<close> cannot be set), \<^verbatim>\<open>Bind\<close> returns
  an error that names the key, whatever the request holds: the request is returned as it
  was (the form is not parsed and no value is read) and so is the argument.
\<close>

theorem Bind_invalid_destination:
  assumes "\<forall>a cur. dest \<noteq> Some (VPtr a cur)"
  shows "Bind F input dest key =
           Inr (Some ((if \<exists>t. dest = Some (VZero (TPtr t))
                       then ''beego: non-settable variable passed to Bind: ''
                       else ''beego: non-pointer passed to Bind: '') @ key),
                input, dest)"
proof (cases dest)
  case None
  then show ?thesis by (simp add: Bind_def)
next
  case (Some d)
  with assms have np: "\<And>a cur. d \<noteq> VPtr a cur" by simp
  show ?thesis
  proof (cases "type_of d")
    case (TPtr t)
    with np have "d = VZero (TPtr t)" by (cases d) auto
    then show ?thesis using Some by (simp add: Bind_def)
  qed (use Some in \<open>auto simp: Bind_def\<close>)
qed

theorem Bind_invalid_destination_witness:
  "Bind exampleFloats \<lparr>Params = (\<lambda>k. None), Form = None, RequestData = [(''id'', [''123''])], allocs = 0\<rparr>
      (Some (VInt W 5)) ''id''
     = Inr (Some ''beego: non-pointer passed to Bind: id'',
            \<lparr>Params = (\<lambda>k. None), Form = None, RequestData = [(''id'', [''123''])], allocs = 0\<rparr>,
            Some (VInt W 5))
   \<and> Bind exampleFloats \<lparr>Params = (\<lambda>k. None), Form = None, RequestData = [(''id'', [''123''])], allocs = 0\<rparr>
      (Some (VZero (TPtr (TInt W)))) ''id''
     = Inr (Some ''beego: non-settable variable passed to Bind: id'',
            \<lparr>Params = (\<lambda>k. None), Form = None, RequestData = [(''id'', [''123''])], allocs = 0\<rparr>,
            Some (VZero (TPtr (TInt W))))"
  using Bind_invalid_destination [of "Some (VInt W 5)" exampleFloats _ "''id''"]
    Bind_invalid_destination [of "Some (VZero (TPtr (TInt W)))" exampleFloats _ "''id''"]
  by simp

lemma Addr_valid: "Addr a v = Inr p \<Longrightarrow> IsValid p"
  by (cases v) (auto split: if_splits)

lemma bind_valid:
  assumes h: "bind F input key t = Inr (rv, input')"
  shows "IsValid rv"
proof (cases t)
  case (TInt w)
  with h show ?thesis
    by (auto simp: rv0_def Zero_def bindInt_def split: prod.splits if_splits)
next
  case (TUint w)
  with h show ?thesis
    by (auto simp: rv0_def Zero_def bindUint_def split: prod.splits if_splits)
next
  case (TFloat w)
  with h show ?thesis
    by (auto simp: rv0_def Zero_def bindFloat_def split: prod.splits if_splits option.splits)
next
  case TString
  with h show ?thesis
    by (auto simp: rv0_def Zero_def bindString_def split: prod.splits if_splits)
next
  case TBool
  with h show ?thesis
    by (auto simp: rv0_def Zero_def bindBool_def Let_def split: prod.splits if_splits)
next
  case (TSlice e)
  with h show ?thesis
    by (auto simp: bindSlice_def split: sum.splits prod.splits)
next
  case (TStruct fs)
  with h show ?thesis
    by (auto simp: bindStruct_def split: sum.splits prod.splits)
next
  case (TPtr e)
  with h show ?thesis
    by (auto simp: bindPoint_def dest: Addr_valid split: sum.splits prod.splits)
next
  case (TMap k e)
  with h show ?thesis
    by (auto simp: bindMap_def split: sum.splits prod.splits)
next
  case (TInterface ms)
  with h show ?thesis by (auto simp: rv0_def Zero_def)
next
  case (TOther k)
  with h show ?thesis by (auto simp: rv0_def Zero_def)
qed

lemma Bind_never_empty:
  "Bind F input dest key \<noteq> Inr (Some ''beego: reflect value is empty'', input', dest')"
proof (cases dest)
  case None
  then show ?thesis by (simp add: Bind_def)
next
  case (Some d)
  show ?thesis
  proof (cases d)
    case (VPtr a cur)
    show ?thesis
    proof (cases "bind F input key (type_of cur)")
      case (Inl p)
      then show ?thesis using Some VPtr by (simp add: Bind_def)
    next
      case (Inr r)
      obtain rv i where r: "r = (rv, i)" by (cases r)
      with Inr have "IsValid rv" using bind_valid by blast
      then show ?thesis using Some VPtr Inr r
        by (auto simp: Bind_def split: sum.splits)
    qed
  qed (use Some in \<open>auto simp: Bind_def split: rtype.splits\<close>)
qed

text \<open>
  Claim C3 (the code differs). For a variable of a kind without a case, \<^verbatim>\<open>bind\<close> returns
  its initial \<^verbatim>\<open>rv\<close>, the zero of type \<^verbatim>\<open>int\<close>, which is a valid Value. So \<^verbatim>\<open>Bind\<close> does not
  take the branch of the error \<^verbatim>\<open>"beego: reflect value is empty"\<close>: it calls \<^verbatim>\<open>value.Set\<close>,
  which panics for a variable of one of the other kinds, and which stores the \<^verbatim>\<open>int\<close> 0 in
  a variable of type \<^verbatim>\<open>interface{}\<close>, with a nil error. No call of \<^verbatim>\<open>Bind\<close> at all returns that
  error, since \<^verbatim>\<open>bind\<close> returns a valid Value whenever it returns.
\<close>

theorem Bind_unsupported_kind:
  "bind F input key (TOther k) = Inr (Zero (TInt W), input)
   \<and> IsValid (Zero (TInt W))
   \<and> Bind F input (Some (VPtr a (VZero (TOther k)))) key
       = Inl (NotAssignable (TInt W) (TOther k))
   \<and> Bind F input (Some (VPtr a (VZero (TInterface [])))) key
       = Inr (None, input, Some (VPtr a (VIface [] (Some (VInt W 0)))))
   \<and> Bind F input dest key' \<noteq> Inr (Some ''beego: reflect value is empty'', input', dest')"
  using Bind_never_empty [of F input dest key' input' dest']
  by (simp add: Bind_def rv0_def Zero_def)





subsection \<open>Pointers\<close>

text \<open>
  Claim C5 (the code differs). \<^verbatim>\<open>bindPoint\<close> takes the address of what \<^verbatim>\<open>bind\<close> returns.
  For a key without data \<^verbatim>\<open>bind\<close> returns \<^verbatim>\<open>reflect.Zero\<close> of type \<^verbatim>\<open>int\<close>, which is not
  addressable, and \<^verbatim>\<open>Addr\<close> panics: no pointer is returned. The same happens for every
  string, since \<^verbatim>\<open>reflect.ValueOf(val)\<close> is not addressable either.
\<close>

theorem bindPoint_absent_panics:
  "bind F \<lparr>Params = (\<lambda>k. None), Form = Some [], RequestData = [], allocs = 0\<rparr>
      ''id'' (TPtr (TInt W)) = Inl Unaddressable
   \<and> bind F \<lparr>Params = (\<lambda>k. None), Form = Some [(''s'', [''abc''])], RequestData = [], allocs = 0\<rparr>
      ''s'' (TPtr TString) = Inl Unaddressable"
  by (simp add: bindPoint_def rv0_def Zero_def Query_def Param_def Get_def bindString_def)

end
